theory Spec2Isabelle
  imports Complex_Main "HOL-Library.Word" "HOL-Library.Sublist" "HOL-Library.Multiset"
begin

section \<open>Values of the host language\<close>

text \<open>
  The program is a single TypeScript module, \<^verbatim>\<open>src/App.tsx\<close>. Its strings are
  sequences of UTF-16 code units; \<open>ascii\<close> writes the code units of an ASCII literal, and
  code units outside ASCII are written as hexadecimal numerals.
\<close>

type_synonym jsstring = "16 word list"

definition ascii :: "string \<Rightarrow> jsstring" where
  "ascii s = map of_char s"

text \<open>
  A value of type \<^verbatim>\<open>number\<close>: a real number, one of the two infinities, or NaN.
  Comparisons follow the language: every comparison with NaN is false. The module does
  arithmetic on identifiers only, and that is modelled with its rounding below.
\<close>

datatype number = NaN | Num real | PosInfinity | NegInfinity

fun num_le :: "number \<Rightarrow> number \<Rightarrow> bool" where
  "num_le NaN _ = False"
| "num_le _ NaN = False"
| "num_le NegInfinity _ = True"
| "num_le _ PosInfinity = True"
| "num_le (Num a) (Num b) = (a \<le> b)"
| "num_le _ _ = False"

definition num_ge :: "number \<Rightarrow> number \<Rightarrow> bool" where
  "num_ge a b = num_le b a"

definition isNaN :: "number \<Rightarrow> bool" where
  "isNaN n = (n = NaN)"

definition isInteger :: "number \<Rightarrow> bool" where
  "isInteger n = (case n of Num r \<Rightarrow> r = of_int \<lfloor>r\<rfloor> | _ \<Rightarrow> False)"

text \<open>
  Integer-valued numbers are doubles: 53 significant bits, so up to magnitude \<open>2 ^ 53\<close>
  every integer is a number, and from there on the numbers are 2, 4, 8, ... apart.
  \<open>spacing m\<close> is that distance at magnitude \<open>m\<close>, \<open>round_double\<close> rounds an integer to
  the nearest number, a tie going to the even significand, and \<open>plus_one\<close> is the
  language's \<^verbatim>\<open>n + 1\<close> on an integer-valued number. An integer is a number when
  rounding leaves it alone (\<open>is_double\<close>). \<open>number_of_int\<close> is the number a decimal
  integer literal denotes; it is an infinity from \<open>2 ^ 1024\<close> on.
\<close>

function spacing :: "nat \<Rightarrow> nat" where
  "spacing m = (if m < 2 ^ 53 then 1 else 2 * spacing (m div 2))"
  by pat_completeness auto
termination
  by (relation "measure id") auto

declare spacing.simps [simp del]

definition round_double :: "int \<Rightarrow> int" where
  "round_double n =
     (let q = int (spacing (nat \<bar>n\<bar>)); lo = (n div q) * q; r = n - lo
      in if 2 * r < q then lo
         else if q < 2 * r then lo + q
         else if even (n div q) then lo else lo + q)"

definition plus_one :: "int \<Rightarrow> int" where
  "plus_one n = round_double (n + 1)"

definition is_double :: "int \<Rightarrow> bool" where
  "is_double i = (round_double i = i)"

definition number_of_int :: "int \<Rightarrow> number" where
  "number_of_int i =
     (let r = round_double i
      in if 2 ^ 1024 \<le> \<bar>r\<bar> then (if i < 0 then NegInfinity else PosInfinity)
         else Num (of_int r))"

text \<open>
  \<^verbatim>\<open>String.prototype.trim\<close> removes the white space and line terminator code units of
  the language standard from both ends; \<^verbatim>\<open>String.prototype.includes\<close> looks for a
  contiguous occurrence.
\<close>

definition is_space :: "16 word \<Rightarrow> bool" where
  "is_space c = (c \<in> {0x9, 0xA, 0xB, 0xC, 0xD, 0x20, 0xA0, 0x1680, 0x2028, 0x2029,
                       0x202F, 0x205F, 0x3000, 0xFEFF} \<or> (0x2000 \<le> c \<and> c \<le> 0x200A))"

definition trim :: "jsstring \<Rightarrow> jsstring" where
  "trim s = rev (dropWhile is_space (rev (dropWhile is_space s)))"

fun includes_str :: "jsstring \<Rightarrow> jsstring \<Rightarrow> bool" where
  "includes_str [] q = (q = [])"
| "includes_str (c # s) q = (take (length q) (c # s) = q \<or> includes_str s q)"

section \<open>Types and constants of the module\<close>

text \<open>
  \<^verbatim>\<open>Product\<close> is the record of lines 10--17; \<^verbatim>\<open>Omit<Product, "id">\<close>, the payload of
  an add, is its part without the identifier. The field \<^verbatim>\<open>id\<close> is written \<open>id'\<close>.
  Identifiers are taken as integers: the store draws them from a counter. A category is
  the string the type \<^verbatim>\<open>DanhMuc\<close> erases to; the empty string is "no category".
\<close>

record Draft =
  ten :: jsstring
  danhMuc :: jsstring
  gia :: number
  soLuong :: number
  moTa :: jsstring

record Product = Draft +
  id' :: int


definition PAGE_SIZE :: nat where
  "PAGE_SIZE = 6"


section \<open>Built-in functions and the browser's storage\<close>

text \<open>
  Three library functions are parameters of the model, so that every theorem holds for
  whatever the host computes: \<^verbatim>\<open>Number\<close> on a string, \<^verbatim>\<open>toLowerCase\<close>, and the
  text \<^verbatim>\<open>Number.prototype.toString\<close> gives a finite number that is not an integer
  below \<open>10 ^ 21\<close> in magnitude (such an integer is written in decimal digits, which the model
  computes itself).
\<close>

datatype exception = SyntaxError | TypeError | QuotaExceededError | SecurityError

record builtins =
  Number :: "jsstring \<Rightarrow> number"
  toLowerCase :: "jsstring \<Rightarrow> jsstring"
  Number_toString :: "real \<Rightarrow> jsstring"

text \<open>
  \<^verbatim>\<open>localStorage\<close>: the stored entries, whether the browser permits access at all
  (a denied access throws on every call), and which writes it accepts (a write over
  quota throws).
\<close>

record Storage =
  items :: "jsstring \<Rightarrow> jsstring option"
  available :: bool
  accepts :: "jsstring \<Rightarrow> jsstring \<Rightarrow> bool"

definition setItem :: "Storage \<Rightarrow> jsstring \<Rightarrow> jsstring \<Rightarrow> exception + Storage" where
  "setItem ls k v =
     (if \<not> available ls then Inl SecurityError
      else if \<not> accepts ls k v then Inl QuotaExceededError
      else Inr (ls\<lparr>items := (items ls)(k \<mapsto> v)\<rparr>))"


section \<open>JSON\<close>


subsection \<open>\<^verbatim>\<open>JSON.stringify\<close> on a list of products\<close>

text \<open>
  A number that is not finite is written \<^verbatim>\<open>null\<close>. A string is quoted as the language
  standard prescribes: the quote, the backslash and the control characters are escaped,
  the short escapes are used where they exist, a surrogate without its partner is written
  as \<^verbatim>\<open>\u\<close> and four lower-case hexadecimal digits, and everything else stands for
  itself. The module writes the properties of every product in the order \<^verbatim>\<open>id\<close>,
  \<^verbatim>\<open>ten\<close>, \<^verbatim>\<open>danhMuc\<close>, \<^verbatim>\<open>gia\<close>, \<^verbatim>\<open>soLuong\<close>, \<^verbatim>\<open>moTa\<close> (lines 26, 58 and 415),
  which is the order of the text.
\<close>

fun decimal :: "nat \<Rightarrow> jsstring" where
  "decimal n = (if n < 10 then [of_nat n + 0x30] else decimal (n div 10) @ [of_nat (n mod 10) + 0x30])"

declare decimal.simps [simp del]

definition int_text :: "int \<Rightarrow> jsstring" where
  "int_text i = (if i < 0 then 0x2D # decimal (nat (- i)) else decimal (nat i))"

definition number_text :: "builtins \<Rightarrow> number \<Rightarrow> jsstring" where
  "number_text js n =
     (case n of
        Num r \<Rightarrow>
          if r = of_int \<lfloor>r\<rfloor> \<and> \<bar>r\<bar> < 10 ^ 21 then int_text \<lfloor>r\<rfloor> else Number_toString js r
      | _ \<Rightarrow> ascii ''null'')"

definition hex_char :: "nat \<Rightarrow> 16 word" where
  "hex_char d = (if d < 10 then of_nat d + 0x30 else of_nat d + 0x57)"

definition unicode_escape :: "16 word \<Rightarrow> jsstring" where
  "unicode_escape c =
     [0x5C, 0x75, hex_char (unat c div 4096), hex_char (unat c div 256 mod 16),
      hex_char (unat c div 16 mod 16), hex_char (unat c mod 16)]"

definition is_high_surrogate :: "16 word \<Rightarrow> bool" where
  "is_high_surrogate c = (0xD800 \<le> c \<and> c \<le> 0xDBFF)"

definition is_low_surrogate :: "16 word \<Rightarrow> bool" where
  "is_low_surrogate c = (0xDC00 \<le> c \<and> c \<le> 0xDFFF)"

definition quote_unit :: "16 word \<Rightarrow> jsstring" where
  "quote_unit c =
     (if c = 0x08 then [0x5C, 0x62]
      else if c = 0x09 then [0x5C, 0x74]
      else if c = 0x0A then [0x5C, 0x6E]
      else if c = 0x0C then [0x5C, 0x66]
      else if c = 0x0D then [0x5C, 0x72]
      else if c = 0x22 then [0x5C, 0x22]
      else if c = 0x5C then [0x5C, 0x5C]
      else if c < 0x20 \<or> is_high_surrogate c \<or> is_low_surrogate c then unicode_escape c
      else [c])"

fun quote_units :: "jsstring \<Rightarrow> jsstring" where
  "quote_units [] = []"
| "quote_units [c] = quote_unit c"
| "quote_units (c # d # s) =
     (if is_high_surrogate c \<and> is_low_surrogate d then c # d # quote_units s
      else quote_unit c @ quote_units (d # s))"

definition quote :: "jsstring \<Rightarrow> jsstring" where
  "quote s = 0x22 # quote_units s @ [0x22]"

fun join_comma :: "jsstring list \<Rightarrow> jsstring" where
  "join_comma [] = []"
| "join_comma [x] = x"
| "join_comma (x # y # xs) = x @ 0x2C # join_comma (y # xs)"

definition stringify_product :: "builtins \<Rightarrow> Product \<Rightarrow> jsstring" where
  "stringify_product js p =
     0x7B # quote (ascii ''id'') @ 0x3A # number_text js (Num (of_int (id' p)))
     @ 0x2C # quote (ascii ''ten'') @ 0x3A # quote (ten p)
     @ 0x2C # quote (ascii ''danhMuc'') @ 0x3A # quote (danhMuc p)
     @ 0x2C # quote (ascii ''gia'') @ 0x3A # number_text js (gia p)
     @ 0x2C # quote (ascii ''soLuong'') @ 0x3A # number_text js (soLuong p)
     @ 0x2C # quote (ascii ''moTa'') @ 0x3A # quote (moTa p)
     @ [0x7D]"

definition JSON_stringify :: "builtins \<Rightarrow> Product list \<Rightarrow> jsstring" where
  "JSON_stringify js ps = 0x5B # join_comma (map (stringify_product js) ps) @ [0x5D]"



subsection \<open>\<^verbatim>\<open>JSON.parse\<close>\<close>

text \<open>
  The grammar of the language standard. White space is the space, the tab, the line feed
  and the carriage return. A number without fraction and exponent denotes the number of
  its integer; with either, its value is what \<^verbatim>\<open>Number\<close> gives for its text. A string
  may contain any code unit from \<open>0x20\<close> on except the quote and the backslash, and the
  escapes of the standard.
\<close>

definition is_ws :: "16 word \<Rightarrow> bool" where
  "is_ws c = (c = 0x20 \<or> c = 0x09 \<or> c = 0x0A \<or> c = 0x0D)"

definition skip_ws :: "jsstring \<Rightarrow> jsstring" where
  "skip_ws s = dropWhile is_ws s"

definition is_digit :: "16 word \<Rightarrow> bool" where
  "is_digit c = (0x30 \<le> c \<and> c \<le> 0x39)"

definition digits_value :: "jsstring \<Rightarrow> nat" where
  "digits_value s = foldl (\<lambda>n c. 10 * n + unat (c - 0x30)) 0 s"








subsection \<open>Values of the type \<^verbatim>\<open>Product[]\<close>\<close>









section \<open>The persistence helpers (lines 79--93)\<close>

text \<open>
  \<open>loadFromStorage\<close> returns \<open>JNull\<close> where the source returns \<^verbatim>\<open>null\<close>, and otherwise
  whatever the stored text parses to.
\<close>

definition LS_KEY :: jsstring where
  "LS_KEY = ascii ''product_app_state_v1''"

definition persist :: "builtins \<Rightarrow> Storage \<Rightarrow> Product list \<Rightarrow> Storage" where
  "persist js ls products =
     (case setItem ls LS_KEY (JSON_stringify js products) of
        Inl _ \<Rightarrow> ls
      | Inr ls' \<Rightarrow> ls')"


section \<open>The store: reducer and provider (lines 43--122)\<close>

datatype Action =
    Add Draft
  | Update Product
  | Delete int
  | Hydrate "Product list"

record ProductState =
  products :: "Product list"
  nextId :: int

text \<open>
  The reducer writes the new list to the storage in its add, update and delete cases, so
  the storage is threaded through it.
\<close>

fun reducer :: "builtins \<Rightarrow> Storage \<Rightarrow> ProductState \<Rightarrow> Action \<Rightarrow> Storage \<times> ProductState" where
  "reducer js ls state (Hydrate payload) =
     (let maxId = foldl (\<lambda>m p. max m (id' p)) 0 payload
      in (ls, \<lparr>products = payload, nextId = plus_one maxId\<rparr>))"
| "reducer js ls state (Add payload) =
     (let newProduct = \<lparr>ten = ten payload, danhMuc = danhMuc payload, gia = gia payload,
                        soLuong = soLuong payload, moTa = moTa payload, id' = nextId state\<rparr>;
          products' = newProduct # products state
      in (persist js ls products', \<lparr>products = products', nextId = plus_one (nextId state)\<rparr>))"
| "reducer js ls state (Update payload) =
     (let products' = map (\<lambda>p. if id' p = id' payload then payload else p) (products state)
      in (persist js ls products', state\<lparr>products := products'\<rparr>))"
| "reducer js ls state (Delete i) =
     (let products' = filter (\<lambda>p. id' p \<noteq> i) (products state)
      in (persist js ls products', state\<lparr>products := products'\<rparr>))"



text \<open>Dispatching a sequence of actions; the result lists the state after each.\<close>

fun dispatch_all :: "builtins \<Rightarrow> Storage \<Rightarrow> ProductState \<Rightarrow> Action list
                      \<Rightarrow> (Storage \<times> ProductState) list" where
  "dispatch_all js ls state [] = []"
| "dispatch_all js ls state (a # as) =
     (case reducer js ls state a of
        (ls', state') \<Rightarrow> (ls', state') # dispatch_all js ls' state' as)"

section \<open>The list projection and pagination (lines 242--323)\<close>

text \<open>
  \<^verbatim>\<open>FilterState\<close> (lines 176--181) holds the four query parameters as text; its fields
  \<^verbatim>\<open>q\<close>, \<^verbatim>\<open>danhMuc\<close>, \<^verbatim>\<open>min\<close>, \<^verbatim>\<open>max\<close> are written with the prefix \<open>f_\<close>.
\<close>

record FilterState =
  f_q :: jsstring
  f_danhMuc :: jsstring
  f_min :: jsstring
  f_max :: jsstring

text \<open>
  The memoised computation of lines 303--315 narrows \<^verbatim>\<open>list\<close> in four steps, one per
  statement; each step is a function here and \<open>filtered\<close> runs them in the order of the
  source.
\<close>

definition filter_q :: "builtins \<Rightarrow> FilterState \<Rightarrow> Product list \<Rightarrow> Product list" where
  "filter_q js f list =
     (if trim (f_q f) \<noteq> [] then
        (let q = toLowerCase js (f_q f)
         in filter (\<lambda>p. includes_str (toLowerCase js (ten p)) q) list)
      else list)"

definition filter_danhMuc :: "FilterState \<Rightarrow> Product list \<Rightarrow> Product list" where
  "filter_danhMuc f list =
     (if f_danhMuc f \<noteq> [] then filter (\<lambda>p. danhMuc p = f_danhMuc f) list else list)"

definition min_of :: "builtins \<Rightarrow> FilterState \<Rightarrow> number option" where
  "min_of js f = (if f_min f \<noteq> [] then Some (Number js (f_min f)) else None)"

definition max_of :: "builtins \<Rightarrow> FilterState \<Rightarrow> number option" where
  "max_of js f = (if f_max f \<noteq> [] then Some (Number js (f_max f)) else None)"

definition filter_min :: "builtins \<Rightarrow> FilterState \<Rightarrow> Product list \<Rightarrow> Product list" where
  "filter_min js f list =
     (case min_of js f of
        None \<Rightarrow> list
      | Some m \<Rightarrow> if \<not> isNaN m then filter (\<lambda>p. num_ge (gia p) m) list else list)"

definition filter_max :: "builtins \<Rightarrow> FilterState \<Rightarrow> Product list \<Rightarrow> Product list" where
  "filter_max js f list =
     (case max_of js f of
        None \<Rightarrow> list
      | Some m \<Rightarrow> if \<not> isNaN m then filter (\<lambda>p. num_le (gia p) m) list else list)"

definition filtered :: "builtins \<Rightarrow> Product list \<Rightarrow> FilterState \<Rightarrow> Product list" where
  "filtered js prods f = filter_max js f (filter_min js f (filter_danhMuc f (filter_q js f prods)))"

text \<open>The same four steps, run in a given order.\<close>

datatype step = ByText | ByCategory | ByMin | ByMax

fun apply_step :: "builtins \<Rightarrow> FilterState \<Rightarrow> step \<Rightarrow> Product list \<Rightarrow> Product list" where
  "apply_step js f ByText list = filter_q js f list"
| "apply_step js f ByCategory list = filter_danhMuc f list"
| "apply_step js f ByMin list = filter_min js f list"
| "apply_step js f ByMax list = filter_max js f list"

definition filtered_in_order :: "builtins \<Rightarrow> step list \<Rightarrow> Product list \<Rightarrow> FilterState
                                   \<Rightarrow> Product list" where
  "filtered_in_order js order prods f = fold (apply_step js f) order prods"

text \<open>
  \<^verbatim>\<open>Array.prototype.slice\<close> with two arguments: a negative index counts from the end,
  and both are cut to the array.
\<close>

definition slice :: "'a list \<Rightarrow> int \<Rightarrow> int \<Rightarrow> 'a list" where
  "slice xs start stop =
     (let len = int (length xs);
          k = (if start < 0 then max (len + start) 0 else min start len);
          final = (if stop < 0 then max (len + stop) 0 else min stop len)
      in take (nat (final - k)) (drop (nat k) xs))"

definition pageItems :: "'a list \<Rightarrow> int \<Rightarrow> 'a list" where
  "pageItems list page =
     (let start = (page - 1) * int PAGE_SIZE in slice list start (start + int PAGE_SIZE))"

definition totalPages :: "nat \<Rightarrow> int" where
  "totalPages tot = max 1 \<lceil>real tot / real PAGE_SIZE\<rceil>"

text \<open>The page the Previous and the Next button ask for (lines 253 and 261).\<close>

definition previous :: "int \<Rightarrow> int" where
  "previous page = max 1 (page - 1)"

definition next_page :: "nat \<Rightarrow> int \<Rightarrow> int" where
  "next_page tot page = min (totalPages tot) (page + 1)"

section \<open>The product form (lines 361--417)\<close>

text \<open>
  \<^verbatim>\<open>FormValues\<close> holds the draft as text; its fields are written with the prefix
  \<open>v_\<close>. The error object and the touched object are keyed by the five field names.
\<close>

record FormValues =
  v_ten :: jsstring
  v_danhMuc :: jsstring
  v_gia :: jsstring
  v_soLuong :: jsstring
  v_moTa :: jsstring

datatype field = K_ten | K_danhMuc | K_gia | K_soLuong | K_moTa

text \<open>
  The seven messages, in the order of the source. Without their diacritics they read:
  "Ten san pham la bat buoc", "Ten toi thieu 3 ky tu", "Vui long chon danh muc",
  "Gia la bat buoc", "Gia phai la so duong", "So luong la bat buoc",
  "So luong phai la so nguyen duong", "Mo ta la bat buoc".
\<close>

definition msg_ten_required :: jsstring where
  "msg_ten_required = ascii ''T'' @ [0xEA] @ ascii ''n s'' @ [0x1EA3] @ ascii ''n ph'' @ [0x1EA9]
     @ ascii ''m l'' @ [0xE0] @ ascii '' b'' @ [0x1EAF] @ ascii ''t bu'' @ [0x1ED9] @ ascii ''c''"

definition msg_ten_short :: jsstring where
  "msg_ten_short = ascii ''T'' @ [0xEA] @ ascii ''n t'' @ [0x1ED1] @ ascii ''i thi'' @ [0x1EC3]
     @ ascii ''u 3 k'' @ [0xFD] @ ascii '' t'' @ [0x1EF1]"

definition msg_danhMuc :: jsstring where
  "msg_danhMuc = ascii ''Vui l'' @ [0xF2] @ ascii ''ng ch'' @ [0x1ECD] @ ascii ''n danh m''
     @ [0x1EE5] @ ascii ''c''"

definition msg_gia_required :: jsstring where
  "msg_gia_required = ascii ''Gi'' @ [0xE1] @ ascii '' l'' @ [0xE0] @ ascii '' b'' @ [0x1EAF]
     @ ascii ''t bu'' @ [0x1ED9] @ ascii ''c''"

definition msg_gia_positive :: jsstring where
  "msg_gia_positive = ascii ''Gi'' @ [0xE1] @ ascii '' ph'' @ [0x1EA3] @ ascii ''i l'' @ [0xE0]
     @ ascii '' s'' @ [0x1ED1] @ ascii '' d'' @ [0x1B0, 0x1A1] @ ascii ''ng''"

definition msg_soLuong_required :: jsstring where
  "msg_soLuong_required = ascii ''S'' @ [0x1ED1] @ ascii '' l'' @ [0x1B0, 0x1EE3] @ ascii ''ng l''
     @ [0xE0] @ ascii '' b'' @ [0x1EAF] @ ascii ''t bu'' @ [0x1ED9] @ ascii ''c''"

definition msg_soLuong_positive :: jsstring where
  "msg_soLuong_positive = ascii ''S'' @ [0x1ED1] @ ascii '' l'' @ [0x1B0, 0x1EE3] @ ascii ''ng ph''
     @ [0x1EA3] @ ascii ''i l'' @ [0xE0] @ ascii '' s'' @ [0x1ED1] @ ascii '' nguy'' @ [0xEA]
     @ ascii ''n d'' @ [0x1B0, 0x1A1] @ ascii ''ng''"

definition msg_moTa_required :: jsstring where
  "msg_moTa_required = ascii ''M'' @ [0xF4] @ ascii '' t'' @ [0x1EA3] @ ascii '' l'' @ [0xE0]
     @ ascii '' b'' @ [0x1EAF] @ ascii ''t bu'' @ [0x1ED9] @ ascii ''c''"

definition validate :: "builtins \<Rightarrow> FormValues \<Rightarrow> (field \<Rightarrow> jsstring option)" where
  "validate js v =
     (let errors = Map.empty;
          errors = (if trim (v_ten v) = [] then errors(K_ten \<mapsto> msg_ten_required)
                    else if length (trim (v_ten v)) < 3 then errors(K_ten \<mapsto> msg_ten_short)
                    else errors);
          errors = (if v_danhMuc v = [] then errors(K_danhMuc \<mapsto> msg_danhMuc) else errors);
          gia = Number js (v_gia v);
          errors = (if v_gia v = [] then errors(K_gia \<mapsto> msg_gia_required)
                    else if isNaN gia \<or> num_le gia (Num 0)
                    then errors(K_gia \<mapsto> msg_gia_positive)
                    else errors);
          soLuong = Number js (v_soLuong v);
          errors = (if v_soLuong v = [] then errors(K_soLuong \<mapsto> msg_soLuong_required)
                    else if \<not> isInteger soLuong \<or> num_le soLuong (Num 0)
                    then errors(K_soLuong \<mapsto> msg_soLuong_positive)
                    else errors);
          errors = (if trim (v_moTa v) = [] then errors(K_moTa \<mapsto> msg_moTa_required)
                    else errors)
      in errors)"

definition Object_keys :: "(field \<Rightarrow> 'a option) \<Rightarrow> field list" where
  "Object_keys obj = filter (\<lambda>k. obj k \<noteq> None) [K_ten, K_danhMuc, K_gia, K_soLuong, K_moTa]"

text \<open>
  The properties of the form are its mode with, in edit mode, the product being edited;
  \<^verbatim>\<open>onSubmit\<close> receives a product without identifier in add mode and a full product in
  edit mode. \<open>submit\<close> returns the touched object after the event and what it handed to
  \<^verbatim>\<open>onSubmit\<close>, if anything.
\<close>

datatype ProductFormProps = AddMode | EditMode Product

datatype submission = NewProduct Draft | FullProduct Product

definition submit :: "builtins \<Rightarrow> ProductFormProps \<Rightarrow> FormValues \<Rightarrow> (field \<Rightarrow> bool option)
                       \<Rightarrow> (field \<Rightarrow> bool option) \<times> submission option" where
  "submit js props v touched =
     (let errs = validate js v in
      if length (Object_keys errs) \<noteq> 0 then
        ([K_ten \<mapsto> True, K_danhMuc \<mapsto> True, K_gia \<mapsto> True, K_soLuong \<mapsto> True, K_moTa \<mapsto> True],
         None)
      else
        (touched,
         Some (case props of
                 AddMode \<Rightarrow>
                   NewProduct \<lparr>ten = trim (v_ten v), danhMuc = v_danhMuc v,
                     gia = Number js (v_gia v), soLuong = Number js (v_soLuong v),
                     moTa = trim (v_moTa v)\<rparr>
               | EditMode initial \<Rightarrow>
                   FullProduct \<lparr>ten = trim (v_ten v), danhMuc = v_danhMuc v,
                     gia = Number js (v_gia v), soLuong = Number js (v_soLuong v),
                     moTa = trim (v_moTa v), id' = id' initial\<rparr>)))"

section \<open>Properties of the store, stated as predicates\<close>





section \<open>The rules of the form, as the specification words them\<close>

text \<open>
  The table of section 4.5 of the specification: the name is not blank after trimming and
  its trimmed length is at least 3; a category is selected; the price is given and parses
  as a number strictly greater than 0; the quantity is given and parses as an integer
  strictly greater than 0; the description is not blank after trimming. \<open>num_lt\<close> is the
  strict comparison of the language.
\<close>

fun num_lt :: "number \<Rightarrow> number \<Rightarrow> bool" where
  "num_lt NaN _ = False"
| "num_lt _ NaN = False"
| "num_lt (Num a) (Num b) = (a < b)"
| "num_lt NegInfinity n = (n \<noteq> NegInfinity)"
| "num_lt n PosInfinity = (n \<noteq> PosInfinity)"
| "num_lt _ _ = False"

definition spec_rules_pass :: "builtins \<Rightarrow> FormValues \<Rightarrow> bool" where
  "spec_rules_pass js v =
     (trim (v_ten v) \<noteq> [] \<and> 3 \<le> length (trim (v_ten v))
      \<and> v_danhMuc v \<noteq> []
      \<and> v_gia v \<noteq> [] \<and> \<not> isNaN (Number js (v_gia v)) \<and> num_lt (Num 0) (Number js (v_gia v))
      \<and> v_soLuong v \<noteq> [] \<and> isInteger (Number js (v_soLuong v))
        \<and> num_lt (Num 0) (Number js (v_soLuong v))
      \<and> trim (v_moTa v) \<noteq> [])"


section \<open>Concrete values for the examples\<close>

text \<open>
  The examples below run the model on concrete inputs, so they need one instance of the
  built-in functions. \<open>decimal_Number\<close> follows the host's conversion of a string to a
  number on blank strings, on signed decimal literals without exponent and on signed
  \<^verbatim>\<open>Infinity\<close>, and gives NaN elsewhere; \<open>ascii_lower\<close> lowers the letters A to Z. No
  example writes a number that is not an integer, so \<open>Number_toString\<close> of the instance
  is never called.
\<close>

definition unsigned_literal :: "jsstring \<Rightarrow> number" where
  "unsigned_literal s =
     (if s = ascii ''Infinity'' then PosInfinity
      else
        (let whole = takeWhile is_digit s; rest = dropWhile is_digit s in
         case rest of
           [] \<Rightarrow> if whole = [] then NaN else Num (real (digits_value whole))
         | c # fr \<Rightarrow>
             if c = 0x2E \<and> list_all is_digit fr \<and> (whole \<noteq> [] \<or> fr \<noteq> [])
             then Num (real (digits_value whole) + real (digits_value fr) / 10 ^ length fr)
             else NaN))"

definition negate :: "number \<Rightarrow> number" where
  "negate n = (case n of NaN \<Rightarrow> NaN | Num r \<Rightarrow> Num (- r)
                | PosInfinity \<Rightarrow> NegInfinity | NegInfinity \<Rightarrow> PosInfinity)"

definition decimal_Number :: "jsstring \<Rightarrow> number" where
  "decimal_Number s =
     (case trim s of
        [] \<Rightarrow> Num 0
      | c # r \<Rightarrow>
          if c = 0x2D then negate (unsigned_literal r)
          else if c = 0x2B then unsigned_literal r
          else unsigned_literal (c # r))"

definition ascii_lower :: "jsstring \<Rightarrow> jsstring" where
  "ascii_lower s = map (\<lambda>c. if 0x41 \<le> c \<and> c \<le> 0x5A then c + 0x20 else c) s"

definition pen :: Product where
  "pen = \<lparr>ten = ascii ''Pen'', danhMuc = ascii ''Kh'' @ [0xE1] @ ascii ''c'',
          gia = Num 5000, soLuong = Num 3, moTa = ascii ''Blue ink'', id' = 1\<rparr>"


definition js0 :: builtins where
  "js0 = \<lparr>Number = decimal_Number, toLowerCase = ascii_lower, Number_toString = (\<lambda>r. [])\<rparr>"

text \<open>A storage the browser denies, an empty one that takes every write, and a full one.\<close>

definition no_storage :: Storage where
  "no_storage = \<lparr>items = Map.empty, available = False, accepts = (\<lambda>k v. False)\<rparr>"



definition s0 :: ProductState where
  "s0 = \<lparr>products = [pen], nextId = 2\<rparr>"

definition ink :: Draft where
  "ink = \<lparr>ten = ascii ''Ink'', danhMuc = ascii ''Kh'' @ [0xE1] @ ascii ''c'',
          gia = Num 12000, soLuong = Num 4, moTa = ascii ''Black, 50ml''\<rparr>"


definition pencil :: Product where
  "pencil = \<lparr>ten = ascii ''Pencil'', danhMuc = ascii ''Kh'' @ [0xE1] @ ascii ''c'',
          gia = Num 2000, soLuong = Num 30, moTa = ascii ''HB'', id' = 2\<rparr>"

definition f0 :: FilterState where
  "f0 = \<lparr>f_q = ascii ''PE'', f_danhMuc = ascii ''Kh'' @ [0xE1] @ ascii ''c'',
         f_min = ascii ''5000'', f_max = ascii ''abc''\<rparr>"

definition v_ok :: FormValues where
  "v_ok = \<lparr>v_ten = ascii '' Pen'', v_danhMuc = ascii ''Kh'' @ [0xE1] @ ascii ''c'',
           v_gia = ascii ''5000'', v_soLuong = ascii ''3'', v_moTa = ascii ''Blue ink''\<rparr>"


section \<open>Integer-valued numbers\<close>

text \<open>
  Below, \<open>9007199254740992\<close> is \<open>2 ^ 53\<close>. Up to that magnitude every integer is a
  number and adding 1 is exact; at \<open>2 ^ 53\<close> itself adding 1 rounds back to \<open>2 ^ 53\<close>.
\<close>

lemma spacing_small: "m < 9007199254740992 \<Longrightarrow> spacing m = 1"
  by (subst spacing.simps) simp

lemma round_double_small: "\<bar>n\<bar> < 9007199254740992 \<Longrightarrow> round_double n = n"
proof -
  assume "\<bar>n\<bar> < 9007199254740992"
  then have "nat \<bar>n\<bar> < 9007199254740992" by simp
  then have "spacing (nat \<bar>n\<bar>) = 1" by (rule spacing_small)
  then show ?thesis by (simp add: round_double_def)
qed

lemma spacing_2_53: "spacing 9007199254740992 = 2"
  by (subst spacing.simps) (simp add: spacing_small)

lemma spacing_2_53_1: "spacing 9007199254740993 = 2"
  by (subst spacing.simps) (simp add: spacing_small)

lemma round_double_exact:
  "- 9007199254740992 \<le> n \<Longrightarrow> n \<le> 9007199254740992 \<Longrightarrow> round_double n = n"
proof -
  assume a: "- 9007199254740992 \<le> n" "n \<le> 9007199254740992"
  show ?thesis
  proof (cases "\<bar>n\<bar> < 9007199254740992")
    case True
    then show ?thesis by (rule round_double_small)
  next
    case False
    with a have "n = 9007199254740992 \<or> n = - 9007199254740992" by auto
    then show ?thesis
      by (auto simp: round_double_def spacing_2_53 Let_def)
  qed
qed

lemma number_of_int_double:
  "is_double n \<Longrightarrow> \<bar>n\<bar> < 10 ^ 21 \<Longrightarrow> number_of_int n = Num (of_int n)"
  by (simp add: number_of_int_def is_double_def Let_def)

lemma is_double_exact:
  "- 9007199254740992 \<le> n \<Longrightarrow> n \<le> 9007199254740992 \<Longrightarrow> is_double n"
  by (simp add: is_double_def round_double_exact)

lemma number_of_int_exact:
  "- 9007199254740992 \<le> n \<Longrightarrow> n \<le> 9007199254740992 \<Longrightarrow> number_of_int n = Num (of_int n)"
  by (simp add: number_of_int_double is_double_exact)


lemma plus_one_2_53: "plus_one 9007199254740992 = 9007199254740992"
  by (simp add: plus_one_def round_double_def spacing_2_53_1 Let_def)

section \<open>Parsing what was written\<close>




























lemma skip_ws_plain: "\<not> is_ws c \<Longrightarrow> skip_ws (c # r) = c # r"
  by (simp add: skip_ws_def)



















section \<open>The store\<close>

subsection \<open>Auxiliary facts\<close>

lemma foldl_max_eq: "foldl (\<lambda>m p. max m (id' p)) (m::int) l = Max (insert m (id' ` set l))"
proof (induction l arbitrary: m)
  case Nil
  then show ?case by simp
next
  case (Cons x xs)
  have "Max (insert (max m (id' x)) (id' ` set xs)) = Max (insert m (insert (id' x) (id' ` set xs)))"
    by (cases "xs = []") (simp_all add: max.assoc)
  with Cons show ?case by simp
qed

lemma map_update_absent:
  "i \<notin> id' ` set xs \<Longrightarrow> map (\<lambda>p. if id' p = i then q else p) xs = xs"
  by (induction xs) auto





subsection \<open>Adding\<close>



text \<open>
  As the claim is worded, the identifiers would increase from every starting state. At
  the counter \<open>2 ^ 53\<close> line 61 computes \<open>2 ^ 53 + 1\<close>, which rounds back to \<open>2 ^ 53\<close>, and
  two adds hand out the same identifier.
\<close>

theorem add_rounding_counterexample:
  "map (\<lambda>t. id' (hd (products t)))
     (map snd (dispatch_all js0 no_storage \<lparr>products = [], nextId = 9007199254740992\<rparr>
        (map Add [ink, ink])))
   = [9007199254740992, 9007199254740992]"
  by (simp add: Let_def plus_one_2_53)

subsection \<open>Updating and deleting\<close>

text \<open>
  Claim C8. An update whose payload carries an identifier that no product of the list
  has returns the state it was given: the list and the counter are unchanged. The reducer
  has no error result; it writes the unchanged list to the storage as every update does.
\<close>

theorem update_absent_noop:
  "id' p \<notin> id' ` set (products s) \<Longrightarrow>
   reducer js ls s (Update p) = (persist js ls (products s), s)"
  by (simp add: Let_def map_update_absent)

theorem update_absent_noop_witness:
  "id' (pen\<lparr>id' := 7\<rparr>) \<notin> id' ` set (products s0)
   \<and> reducer js0 no_storage s0 (Update (pen\<lparr>id' := 7\<rparr>)) = (no_storage, s0)"
  using update_absent_noop [of "pen\<lparr>id' := 7\<rparr>" s0 js0 no_storage]
  by (simp add: s0_def pen_def persist_def setItem_def no_storage_def)

text \<open>
  Claim C10. Neither an update nor a delete changes the counter. An update keeps the
  length of the list and leaves every element whose identifier differs from the payload's
  where it was. The list after a delete is a subsequence of the list before, so the
  elements that remain keep their relative order, and they are the elements whose
  identifier differs from the deleted one.
\<close>

theorem update_delete_frame:
  "nextId (snd (reducer js ls s (Update p))) = nextId s
   \<and> nextId (snd (reducer js ls s (Delete i))) = nextId s
   \<and> length (products (snd (reducer js ls s (Update p)))) = length (products s)
   \<and> (\<forall>k<length (products s). id' (products s ! k) \<noteq> id' p \<longrightarrow>
         products (snd (reducer js ls s (Update p))) ! k = products s ! k)
   \<and> subseq (products (snd (reducer js ls s (Delete i)))) (products s)
   \<and> set (products (snd (reducer js ls s (Delete i)))) = {x \<in> set (products s). id' x \<noteq> i}"
  by (auto simp: Let_def)

theorem update_delete_frame_witness:
  "(1::nat) < length (products \<lparr>products = [pen\<lparr>id' := 2\<rparr>, pen], nextId = 3\<rparr>)
   \<and> id' (products \<lparr>products = [pen\<lparr>id' := 2\<rparr>, pen], nextId = 3\<rparr> ! 1)
       \<noteq> id' (pen\<lparr>id' := 2, gia := Num 1\<rparr>)
   \<and> products (snd (reducer js0 no_storage \<lparr>products = [pen\<lparr>id' := 2\<rparr>, pen], nextId = 3\<rparr>
              (Update (pen\<lparr>id' := 2, gia := Num 1\<rparr>)))) ! 1 = pen
   \<and> subseq (products (snd (reducer js0 no_storage \<lparr>products = [pen\<lparr>id' := 2\<rparr>, pen], nextId = 3\<rparr>
              (Delete 2)))) [pen\<lparr>id' := 2\<rparr>, pen]"
  using update_delete_frame [of js0 no_storage "\<lparr>products = [pen\<lparr>id' := 2\<rparr>, pen], nextId = 3\<rparr>"
     "pen\<lparr>id' := 2, gia := Num 1\<rparr>" 2]
  by (simp add: pen_def)

subsection \<open>The invariant\<close>

lemma foldl_max_mem: "p \<in> set l \<Longrightarrow> id' p \<le> foldl (\<lambda>m p. max m (id' p)) (m::int) l"
  by (simp add: foldl_max_eq)
















subsection \<open>Hydration\<close>










section \<open>The list projection\<close>

subsection \<open>Auxiliary facts\<close>

lemma filtered_eq:
  "filtered js prods f = filter (\<lambda>p.
       (trim (f_q f) = [] \<or> includes_str (toLowerCase js (ten p)) (toLowerCase js (f_q f)))
     \<and> (f_danhMuc f = [] \<or> danhMuc p = f_danhMuc f)
     \<and> (f_min f = [] \<or> Number js (f_min f) = NaN \<or> num_le (Number js (f_min f)) (gia p))
     \<and> (f_max f = [] \<or> Number js (f_max f) = NaN \<or> num_le (gia p) (Number js (f_max f)))) prods"
  by (auto simp: filtered_def filter_q_def filter_danhMuc_def filter_min_def filter_max_def
      min_of_def max_of_def isNaN_def num_ge_def Let_def intro!: filter_cong)

lemma Number_5000: "Number js0 (ascii ''5000'') = Num 5000"
  by (simp add: js0_def decimal_Number_def unsigned_literal_def trim_def ascii_def is_space_def
      is_digit_def digits_value_def)

lemma Number_abc: "Number js0 (ascii ''abc'') = NaN"
  by (simp add: js0_def decimal_Number_def unsigned_literal_def trim_def ascii_def is_space_def
      is_digit_def digits_value_def)

lemma Number_Infinity: "Number js0 (ascii ''Infinity'') = PosInfinity"
  by (simp add: js0_def decimal_Number_def unsigned_literal_def trim_def ascii_def is_space_def)

lemma Number_3: "Number js0 (ascii ''3'') = Num 3"
  by (simp add: js0_def decimal_Number_def unsigned_literal_def trim_def ascii_def is_space_def
      is_digit_def digits_value_def)

lemma step_filter: "\<exists>P. apply_step js f k = filter P"
proof (cases k)
  case ByText
  show ?thesis
  proof (cases "trim (f_q f) \<noteq> []")
    case True
    with ByText have "apply_step js f k
        = filter (\<lambda>p. includes_str (toLowerCase js (ten p)) (toLowerCase js (f_q f)))"
      by (simp add: fun_eq_iff filter_q_def)
    then show ?thesis by blast
  next
    case False
    with ByText have "apply_step js f k = filter (\<lambda>p. True)"
      by (simp add: fun_eq_iff filter_q_def)
    then show ?thesis by blast
  qed
next
  case ByCategory
  show ?thesis
  proof (cases "f_danhMuc f \<noteq> []")
    case True
    with ByCategory have "apply_step js f k = filter (\<lambda>p. danhMuc p = f_danhMuc f)"
      by (simp add: fun_eq_iff filter_danhMuc_def)
    then show ?thesis by blast
  next
    case False
    with ByCategory have "apply_step js f k = filter (\<lambda>p. True)"
      by (simp add: fun_eq_iff filter_danhMuc_def)
    then show ?thesis by blast
  qed
next
  case ByMin
  show ?thesis
  proof (cases "f_min f \<noteq> [] \<and> Number js (f_min f) \<noteq> NaN")
    case True
    with ByMin have "apply_step js f k = filter (\<lambda>p. num_ge (gia p) (Number js (f_min f)))"
      by (simp add: fun_eq_iff filter_min_def min_of_def isNaN_def)
    then show ?thesis by blast
  next
    case False
    with ByMin have "apply_step js f k = filter (\<lambda>p. True)"
      by (auto simp: fun_eq_iff filter_min_def min_of_def isNaN_def)
    then show ?thesis by blast
  qed
next
  case ByMax
  show ?thesis
  proof (cases "f_max f \<noteq> [] \<and> Number js (f_max f) \<noteq> NaN")
    case True
    with ByMax have "apply_step js f k = filter (\<lambda>p. num_le (gia p) (Number js (f_max f)))"
      by (simp add: fun_eq_iff filter_max_def max_of_def isNaN_def)
    then show ?thesis by blast
  next
    case False
    with ByMax have "apply_step js f k = filter (\<lambda>p. True)"
      by (auto simp: fun_eq_iff filter_max_def max_of_def isNaN_def)
    then show ?thesis by blast
  qed
qed

lemma steps_commute: "apply_step js f j \<circ> apply_step js f k = apply_step js f k \<circ> apply_step js f j"
proof -
  obtain P where P: "apply_step js f j = filter P" using step_filter by blast
  obtain Q where Q: "apply_step js f k = filter Q" using step_filter by blast
  show ?thesis unfolding P Q by (auto simp: fun_eq_iff intro: filter_cong)
qed

lemma totalPages_div: "totalPages n = max 1 (int ((n + 5) div 6))"
proof -
  have "\<lceil>real n / 6\<rceil> = int ((n + 5) div 6)"
  proof -
    have "\<lceil>real n / 6\<rceil> = \<lceil>real_of_int (int n) / real_of_int 6\<rceil>" by simp
    also have "\<dots> = - ((- int n) div 6)" by (simp only: ceiling_divide_eq_div)
    also have "\<dots> = (int n + 5) div 6" by presburger
    also have "\<dots> = int ((n + 5) div 6)" by (simp add: zdiv_int)
    finally show ?thesis .
  qed
  then show ?thesis by (simp add: totalPages_def PAGE_SIZE_def)
qed

subsection \<open>The price bounds\<close>

text \<open>
  Claim C1, as the projection has it. The result is the input list filtered by the four
  conditions together. The minimum bound is in force exactly when the min text is not
  empty and \<^verbatim>\<open>Number\<close> of it is not NaN: a text that is empty or converts to NaN leaves
  the list as it is. When the text converts to a real number \<open>m\<close>, a product with a real
  price \<open>x\<close> stays exactly when \<open>m \<le> x\<close>, so a price equal to the bound is kept; the same
  holds for the maximum bound with \<open>x \<le> m\<close>. A bound that converts to an infinity is in
  force too: under a minimum of plus infinity only products priced plus infinity stay, and
  likewise for a maximum of minus infinity.
\<close>

theorem price_filters:
  "filtered js prods f = filter (\<lambda>p.
       (trim (f_q f) = [] \<or> includes_str (toLowerCase js (ten p)) (toLowerCase js (f_q f)))
     \<and> (f_danhMuc f = [] \<or> danhMuc p = f_danhMuc f)
     \<and> (f_min f = [] \<or> Number js (f_min f) = NaN \<or> num_le (Number js (f_min f)) (gia p))
     \<and> (f_max f = [] \<or> Number js (f_max f) = NaN \<or> num_le (gia p) (Number js (f_max f)))) prods
   \<and> (f_min f = [] \<or> Number js (f_min f) = NaN \<longrightarrow> filter_min js f list = list)
   \<and> (f_max f = [] \<or> Number js (f_max f) = NaN \<longrightarrow> filter_max js f list = list)
   \<and> (f_min f \<noteq> [] \<and> Number js (f_min f) = Num m \<longrightarrow>
        filter_min js f list = filter (\<lambda>p. num_le (Num m) (gia p)) list
        \<and> (\<forall>p\<in>set list. gia p = Num x \<longrightarrow> (p \<in> set (filter_min js f list) \<longleftrightarrow> m \<le> x)))
   \<and> (f_max f \<noteq> [] \<and> Number js (f_max f) = Num m \<longrightarrow>
        filter_max js f list = filter (\<lambda>p. num_le (gia p) (Num m)) list
        \<and> (\<forall>p\<in>set list. gia p = Num x \<longrightarrow> (p \<in> set (filter_max js f list) \<longleftrightarrow> x \<le> m)))
   \<and> (f_min f \<noteq> [] \<and> Number js (f_min f) = PosInfinity \<longrightarrow>
        filter_min js f list = filter (\<lambda>p. gia p = PosInfinity) list)
   \<and> (f_max f \<noteq> [] \<and> Number js (f_max f) = NegInfinity \<longrightarrow>
        filter_max js f list = filter (\<lambda>p. gia p = NegInfinity) list)"
proof (intro conjI impI)
  show "filtered js prods f = filter (\<lambda>p.
       (trim (f_q f) = [] \<or> includes_str (toLowerCase js (ten p)) (toLowerCase js (f_q f)))
     \<and> (f_danhMuc f = [] \<or> danhMuc p = f_danhMuc f)
     \<and> (f_min f = [] \<or> Number js (f_min f) = NaN \<or> num_le (Number js (f_min f)) (gia p))
     \<and> (f_max f = [] \<or> Number js (f_max f) = NaN \<or> num_le (gia p) (Number js (f_max f)))) prods"
    by (rule filtered_eq)
  show "filter_min js f list = list" if "f_min f = [] \<or> Number js (f_min f) = NaN"
    using that by (auto simp: filter_min_def min_of_def isNaN_def)
  show "filter_max js f list = list" if "f_max f = [] \<or> Number js (f_max f) = NaN"
    using that by (auto simp: filter_max_def max_of_def isNaN_def)
next
  assume a: "f_min f \<noteq> [] \<and> Number js (f_min f) = Num m"
  then show e: "filter_min js f list = filter (\<lambda>p. num_le (Num m) (gia p)) list"
    by (simp add: filter_min_def min_of_def isNaN_def num_ge_def)
  show "\<forall>p\<in>set list. gia p = Num x \<longrightarrow> (p \<in> set (filter_min js f list) \<longleftrightarrow> m \<le> x)"
    unfolding e by simp
next
  assume a: "f_max f \<noteq> [] \<and> Number js (f_max f) = Num m"
  then show e: "filter_max js f list = filter (\<lambda>p. num_le (gia p) (Num m)) list"
    by (simp add: filter_max_def max_of_def isNaN_def)
  show "\<forall>p\<in>set list. gia p = Num x \<longrightarrow> (p \<in> set (filter_max js f list) \<longleftrightarrow> x \<le> m)"
    unfolding e by simp
next
  assume a: "f_min f \<noteq> [] \<and> Number js (f_min f) = PosInfinity"
  have "num_le PosInfinity n = (n = PosInfinity)" for n by (cases n) simp_all
  with a show "filter_min js f list = filter (\<lambda>p. gia p = PosInfinity) list"
    by (simp add: filter_min_def min_of_def isNaN_def num_ge_def)
next
  assume a: "f_max f \<noteq> [] \<and> Number js (f_max f) = NegInfinity"
  have "num_le n NegInfinity = (n = NegInfinity)" for n by (cases n) simp_all
  with a show "filter_max js f list = filter (\<lambda>p. gia p = NegInfinity) list"
    by (simp add: filter_max_def max_of_def isNaN_def)
qed

theorem price_filters_witness:
  "f_min f0 \<noteq> [] \<and> Number js0 (f_min f0) = Num 5000 \<and> Number js0 (f_max f0) = NaN
   \<and> pen \<in> set [pencil, pen] \<and> gia pen = Num 5000
   \<and> filter_min js0 f0 [pencil, pen] = [pen]
   \<and> filter_max js0 f0 [pencil, pen] = [pencil, pen]
   \<and> f_min (f0\<lparr>f_min := ascii ''Infinity''\<rparr>) \<noteq> []
   \<and> Number js0 (f_min (f0\<lparr>f_min := ascii ''Infinity''\<rparr>)) = PosInfinity
   \<and> filter_min js0 (f0\<lparr>f_min := ascii ''Infinity''\<rparr>) [pencil, pen] = []"
  using price_filters [of js0 "[pencil, pen]" f0 "[pencil, pen]" 5000 5000]
    price_filters [of js0 "[pencil, pen]" "f0\<lparr>f_min := ascii ''Infinity''\<rparr>" "[pencil, pen]" 0 0]
    Number_5000 Number_abc Number_Infinity
  by (simp add: f0_def pen_def pencil_def ascii_def)

text \<open>
  As the claim is worded, a bound would be in force only when its text converts to a
  finite number. The text \<^verbatim>\<open>Infinity\<close> converts to plus infinity, which passes the NaN
  test of line 312, and the minimum filter then drops a product priced 5000.
\<close>

theorem infinite_bound_counterexample:
  "Number js0 (ascii ''Infinity'') = PosInfinity
   \<and> filtered js0 [pen] \<lparr>f_q = [], f_danhMuc = [], f_min = ascii ''Infinity'', f_max = []\<rparr> = []"
  using Number_Infinity
  by (simp add: filtered_def filter_q_def filter_danhMuc_def filter_min_def filter_max_def
      min_of_def max_of_def isNaN_def num_ge_def trim_def pen_def ascii_def)

subsection \<open>The order of the filters\<close>

text \<open>
  Claim C6. Running the four filter steps (name text, category, minimum price, maximum
  price) in any order, each once, on the same list and the same filter state gives the
  list the projection computes.
\<close>

theorem filter_order_irrelevant:
  assumes "mset order = mset [ByText, ByCategory, ByMin, ByMax]"
  shows "filtered_in_order js order prods f = filtered js prods f"
proof -
  have "fold (apply_step js f) order = fold (apply_step js f) [ByText, ByCategory, ByMin, ByMax]"
    using assms by (rule fold_multiset_equiv [rotated]) (rule steps_commute)
  then show ?thesis by (simp add: filtered_in_order_def filtered_def)
qed

theorem filter_order_irrelevant_witness:
  "mset [ByMax, ByText, ByMin, ByCategory] = mset [ByText, ByCategory, ByMin, ByMax]
   \<and> filtered_in_order js0 [ByMax, ByText, ByMin, ByCategory] [pencil, pen] f0 = [pen]
   \<and> filtered js0 [pencil, pen] f0 = [pen]"
proof -
  have m: "mset [ByMax, ByText, ByMin, ByCategory] = mset [ByText, ByCategory, ByMin, ByMax]"
    by simp
  have lower: "toLowerCase js0 (ascii ''PE'') = ascii ''pe''"
    "toLowerCase js0 (ascii ''Pen'') = ascii ''pen''"
    "toLowerCase js0 (ascii ''Pencil'') = ascii ''pencil''"
    by (simp_all add: js0_def ascii_lower_def ascii_def)
  have "filtered js0 [pencil, pen] f0 = [pen]"
    unfolding filtered_eq using Number_5000 Number_abc lower
    by (simp add: f0_def pen_def pencil_def) (simp add: ascii_def trim_def is_space_def)
  with filter_order_irrelevant [OF m, of js0 "[pencil, pen]" f0] m show ?thesis by simp
qed

subsection \<open>Pagination\<close>

text \<open>
  Claim C7. The page size is 6 and the number of pages is the ceiling of the count over
  6, and at least 1, so 1 for a count of 0 and 3 for a count of 13. A list of 13 items
  has 6 items on page 1, 6 on page 2 and 1 on page 3, and the three pages together are the
  list. The Previous button asks for the page before the current one, and for page 1 when
  there is none; the Next button asks for the page after the current one, and for the
  last page when there is none. So from a current page within \<open>[1, totalPages]\<close> each
  button asks for the neighbouring page clamped to \<open>[1, totalPages]\<close>. Previous never
  asks for a page below 1 and Next never for a page above the number of pages. Previous on
  page 1 gives 1, and Next on page 3 of 3 gives 3.
\<close>

theorem page_count_and_clamping:
  "PAGE_SIZE = 6
   \<and> totalPages n = max 1 \<lceil>real n / 6\<rceil>
   \<and> totalPages n = max 1 (int ((n + 5) div 6))
   \<and> 1 \<le> totalPages n
   \<and> totalPages 0 = 1
   \<and> totalPages 13 = 3
   \<and> (length xs = 13 \<longrightarrow>
        length (pageItems xs 1) = 6 \<and> length (pageItems xs 2) = 6 \<and> length (pageItems xs 3) = 1
        \<and> pageItems xs 1 @ pageItems xs 2 @ pageItems xs 3 = xs)
   \<and> previous page = (if 1 < page then page - 1 else 1)
   \<and> next_page n page = (if page < totalPages n then page + 1 else totalPages n)
   \<and> (1 \<le> page \<and> page \<le> totalPages n \<longrightarrow>
        previous page = max 1 (min (totalPages n) (page - 1))
        \<and> next_page n page = max 1 (min (totalPages n) (page + 1)))
   \<and> 1 \<le> previous page
   \<and> next_page n page \<le> totalPages n
   \<and> (page \<le> totalPages n + 1 \<longrightarrow> previous page \<le> totalPages n)
   \<and> (0 \<le> page \<longrightarrow> 1 \<le> next_page n page)
   \<and> previous 1 = 1
   \<and> next_page 13 3 = 3"
proof (intro conjI impI)
  show "PAGE_SIZE = 6" by (simp add: PAGE_SIZE_def)
  show "totalPages n = max 1 \<lceil>real n / 6\<rceil>" by (simp add: totalPages_def PAGE_SIZE_def)
  show "totalPages n = max 1 (int ((n + 5) div 6))" by (rule totalPages_div)
  show t1: "1 \<le> totalPages n" by (simp add: totalPages_def)
  show "totalPages 0 = 1" by (simp add: totalPages_div)
  show t13: "totalPages 13 = 3" by (simp add: totalPages_div)
  show "previous page = (if 1 < page then page - 1 else 1)" by (simp add: previous_def)
  show "next_page n page = (if page < totalPages n then page + 1 else totalPages n)"
    by (simp add: next_page_def)
  show "1 \<le> previous page" by (simp add: previous_def)
  show "next_page n page \<le> totalPages n" by (simp add: next_page_def)
  show "previous page \<le> totalPages n" if "page \<le> totalPages n + 1"
    using that t1 by (simp add: previous_def)
  show "1 \<le> next_page n page" if "0 \<le> page"
    using that t1 by (simp add: next_page_def)
  show "previous 1 = 1" by (simp add: previous_def)
  show "next_page 13 3 = 3" by (simp add: next_page_def t13)
next
  assume "1 \<le> page \<and> page \<le> totalPages n"
  then show "previous page = max 1 (min (totalPages n) (page - 1))"
    and "next_page n page = max 1 (min (totalPages n) (page + 1))"
    by (simp_all add: previous_def next_page_def)
next
  assume l: "length xs = 13"
  have p1: "pageItems xs 1 = take 6 xs"
    using l by (simp add: pageItems_def slice_def PAGE_SIZE_def)
  have p2: "pageItems xs 2 = take 6 (drop 6 xs)"
    using l by (simp add: pageItems_def slice_def PAGE_SIZE_def)
  have p3: "pageItems xs 3 = take 1 (drop 12 xs)"
    using l by (simp add: pageItems_def slice_def PAGE_SIZE_def)
  show "length (pageItems xs 1) = 6" "length (pageItems xs 2) = 6" "length (pageItems xs 3) = 1"
    using l by (simp_all add: p1 p2 p3)
  have "take 6 xs @ take 6 (drop 6 xs) @ take 1 (drop 12 xs) = take 13 xs"
    by (simp add: take_add [symmetric] flip: append_assoc)
  then show "pageItems xs 1 @ pageItems xs 2 @ pageItems xs 3 = xs"
    using l by (simp add: p1 p2 p3)
qed

theorem page_count_and_clamping_witness:
  "length [1, 2, 3, 4, 5, 6, 7, 8, 9, 10, 11, 12, 13 :: nat] = 13
   \<and> length (pageItems [1, 2, 3, 4, 5, 6, 7, 8, 9, 10, 11, 12, 13 :: nat] 3) = 1
   \<and> totalPages 13 = 3
   \<and> (1::int) \<le> 2 \<and> (2::int) \<le> totalPages 13
   \<and> previous 2 = 1 \<and> next_page 13 2 = 3"
proof -
  note a = page_count_and_clamping [of 13 "[1, 2, 3, 4, 5, 6, 7, 8, 9, 10, 11, 12, 13 :: nat]" 2]
  have l: "length [1, 2, 3, 4, 5, 6, 7, 8, 9, 10, 11, 12, 13 :: nat] = 13" by simp
  from a have t: "totalPages 13 = 3" by blast
  from a l have p: "length (pageItems [1, 2, 3, 4, 5, 6, 7, 8, 9, 10, 11, 12, 13 :: nat] 3) = 1"
    by blast
  from a have "previous 2 = (if (1::int) < 2 then 2 - 1 else 1)"
    and "next_page 13 2 = (if 2 < totalPages 13 then 2 + 1 else totalPages 13)" by blast+
  then have q: "previous 2 = 1" "next_page 13 2 = 3" by (simp_all add: t)
  from l p t q show ?thesis by simp
qed

section \<open>The product form\<close>

subsection \<open>Auxiliary facts\<close>

lemma num_lt_le: "n \<noteq> NaN \<Longrightarrow> num_lt (Num 0) n = (\<not> num_le n (Num 0))"
  by (cases n) auto

lemma isInteger_not_NaN: "isInteger n \<Longrightarrow> n \<noteq> NaN"
  by (auto simp: isInteger_def)

lemma keys_empty: "Object_keys obj = [] \<longleftrightarrow> (\<forall>k. obj k = None)"
proof
  assume e: "Object_keys obj = []"
  show "\<forall>k. obj k = None"
  proof
    fix k
    from e show "obj k = None" by (cases k) (simp_all add: Object_keys_def split: if_splits)
  qed
next
  assume "\<forall>k. obj k = None"
  then show "Object_keys obj = []" by (simp add: Object_keys_def)
qed

lemma validate_ten:
  "validate js v K_ten =
     (if trim (v_ten v) = [] then Some msg_ten_required
      else if length (trim (v_ten v)) < 3 then Some msg_ten_short else None)"
  by (simp add: validate_def Let_def)

lemma validate_danhMuc:
  "validate js v K_danhMuc = (if v_danhMuc v = [] then Some msg_danhMuc else None)"
  by (simp add: validate_def Let_def)

lemma validate_gia:
  "validate js v K_gia =
     (if v_gia v = [] then Some msg_gia_required
      else if isNaN (Number js (v_gia v)) \<or> num_le (Number js (v_gia v)) (Num 0)
      then Some msg_gia_positive else None)"
  by (simp add: validate_def Let_def)

lemma validate_soLuong:
  "validate js v K_soLuong =
     (if v_soLuong v = [] then Some msg_soLuong_required
      else if \<not> isInteger (Number js (v_soLuong v)) \<or> num_le (Number js (v_soLuong v)) (Num 0)
      then Some msg_soLuong_positive else None)"
  by (simp add: validate_def Let_def)

lemma validate_moTa:
  "validate js v K_moTa = (if trim (v_moTa v) = [] then Some msg_moTa_required else None)"
  by (simp add: validate_def Let_def)

lemma validate_none: "(\<forall>k. validate js v k = None) \<longleftrightarrow> spec_rules_pass js v"
proof
  assume a: "\<forall>k. validate js v k = None"
  from a have "validate js v K_ten = None" "validate js v K_danhMuc = None"
    "validate js v K_gia = None" "validate js v K_soLuong = None" "validate js v K_moTa = None"
    by blast+
  then show "spec_rules_pass js v"
    unfolding validate_ten validate_danhMuc validate_gia validate_soLuong validate_moTa
    by (auto simp: spec_rules_pass_def isNaN_def num_lt_le isInteger_not_NaN split: if_splits)
next
  assume r: "spec_rules_pass js v"
  show "\<forall>k. validate js v k = None"
  proof
    fix k
    from r show "validate js v k = None"
      by (cases k)
        (auto simp: validate_ten validate_danhMuc validate_gia validate_soLuong validate_moTa
          spec_rules_pass_def isNaN_def num_lt_le isInteger_not_NaN)
  qed
qed

lemma v_ok_passes: "spec_rules_pass js0 v_ok"
  using Number_5000 Number_3
  by (simp add: spec_rules_pass_def v_ok_def isNaN_def isInteger_def)
     (simp add: trim_def ascii_def is_space_def)

subsection \<open>Submitting\<close>

text \<open>
  Claim C9. When validation reports an error for some field, submitting sets the touched
  object to all five fields and hands nothing to \<^verbatim>\<open>onSubmit\<close>. Validation reports no
  error exactly when all the rules of the form pass, so a payload is handed over if and
  only if every rule passes, and then the touched object is left as it was. A draft whose
  name is \<^verbatim>\<open>AB\<close> has a trimmed name of length 2, gets the minimum-length message on the
  name field, and submitting it hands over nothing.
\<close>

theorem submit_validation:
  "(Object_keys (validate js v) \<noteq> [] \<longrightarrow>
      submit js props v touched =
        ([K_ten \<mapsto> True, K_danhMuc \<mapsto> True, K_gia \<mapsto> True, K_soLuong \<mapsto> True, K_moTa \<mapsto> True],
         None))
   \<and> (Object_keys (validate js v) = [] \<longleftrightarrow> spec_rules_pass js v)
   \<and> (snd (submit js props v touched) \<noteq> None \<longleftrightarrow> spec_rules_pass js v)
   \<and> (spec_rules_pass js v \<longrightarrow> fst (submit js props v touched) = touched)
   \<and> (v_ten v = ascii ''AB'' \<longrightarrow>
        length (trim (v_ten v)) = 2
        \<and> validate js v K_ten = Some msg_ten_short
        \<and> submit js props v touched =
            ([K_ten \<mapsto> True, K_danhMuc \<mapsto> True, K_gia \<mapsto> True, K_soLuong \<mapsto> True, K_moTa \<mapsto> True],
             None))"
proof (intro conjI impI)
  show k: "Object_keys (validate js v) = [] \<longleftrightarrow> spec_rules_pass js v"
    by (simp add: keys_empty validate_none)
  show "submit js props v touched =
        ([K_ten \<mapsto> True, K_danhMuc \<mapsto> True, K_gia \<mapsto> True, K_soLuong \<mapsto> True, K_moTa \<mapsto> True],
         None)" if "Object_keys (validate js v) \<noteq> []"
    using that by (simp add: submit_def Let_def)
  show "snd (submit js props v touched) \<noteq> None \<longleftrightarrow> spec_rules_pass js v"
    unfolding k [symmetric] by (simp add: submit_def Let_def)
  show "fst (submit js props v touched) = touched" if "spec_rules_pass js v"
    using that k by (simp add: submit_def Let_def)
next
  assume ab: "v_ten v = ascii ''AB''"
  have t: "trim (v_ten v) = ascii ''AB''"
    unfolding ab by (simp add: trim_def ascii_def is_space_def)
  show "length (trim (v_ten v)) = 2" unfolding t by (simp add: ascii_def)
  show e: "validate js v K_ten = Some msg_ten_short"
    unfolding validate_ten t by (simp add: ascii_def)
  have "Object_keys (validate js v) \<noteq> []"
    using e by (auto simp: keys_empty)
  then show "submit js props v touched =
        ([K_ten \<mapsto> True, K_danhMuc \<mapsto> True, K_gia \<mapsto> True, K_soLuong \<mapsto> True, K_moTa \<mapsto> True],
         None)"
    by (simp add: submit_def Let_def)
qed

theorem submit_validation_witness:
  "spec_rules_pass js0 v_ok
   \<and> snd (submit js0 AddMode v_ok Map.empty) \<noteq> None
   \<and> fst (submit js0 AddMode v_ok Map.empty) = Map.empty
   \<and> v_ten (v_ok\<lparr>v_ten := ascii ''AB''\<rparr>) = ascii ''AB''
   \<and> Object_keys (validate js0 (v_ok\<lparr>v_ten := ascii ''AB''\<rparr>)) \<noteq> []
   \<and> snd (submit js0 AddMode (v_ok\<lparr>v_ten := ascii ''AB''\<rparr>) Map.empty) = None"
proof -
  have ab: "v_ten (v_ok\<lparr>v_ten := ascii ''AB''\<rparr>) = ascii ''AB''" by simp
  note ok = submit_validation [of js0 v_ok AddMode Map.empty]
  note bad = submit_validation [of js0 "v_ok\<lparr>v_ten := ascii ''AB''\<rparr>" AddMode Map.empty]
  from bad ab have e: "validate js0 (v_ok\<lparr>v_ten := ascii ''AB''\<rparr>) K_ten = Some msg_ten_short"
    and n: "submit js0 AddMode (v_ok\<lparr>v_ten := ascii ''AB''\<rparr>) Map.empty =
        ([K_ten \<mapsto> True, K_danhMuc \<mapsto> True, K_gia \<mapsto> True, K_soLuong \<mapsto> True, K_moTa \<mapsto> True],
         None)"
    by blast+
  from e have k: "Object_keys (validate js0 (v_ok\<lparr>v_ten := ascii ''AB''\<rparr>)) \<noteq> []"
    by (auto simp: keys_empty)
  from ok v_ok_passes have "snd (submit js0 AddMode v_ok Map.empty) \<noteq> None"
    and "fst (submit js0 AddMode v_ok Map.empty) = Map.empty"
    by blast+
  with v_ok_passes ab k n show ?thesis by simp
qed

section \<open>Persistence\<close>








end
